theory Spec2Isabelle
  imports Complex_Main "HOL-Library.Sublist"
begin

section \<open>JavaScript values, thrown errors and promises\<close>

text \<open>
  The facade \<^verbatim>\<open>Utilities\<close> (src/src/Utilities.js) wraps a viewer engine that is not part
  of the repository. Every engine entry point the facade calls is a parameter of the
  model (a field of a record); the facade's own methods are definitions over them.

  A selector, an object id and an engine error code are JavaScript numbers or strings.
  The numbers modelled are the integral ones.
\<close>

datatype js_value = JNumber int | JString string

text \<open>
  \<^verbatim>\<open>Number.isSafeInteger\<close>: the integers of magnitude at most \<open>2^53 - 1\<close>. Each of them is
  a JavaScript number, and JavaScript prints it with all its digits.
\<close>

definition safe_integer :: "int \<Rightarrow> bool" where
  "safe_integer i \<longleftrightarrow> \<bar>i\<bar> \<le> 9007199254740991"

text \<open>
  \<^verbatim>\<open>`${v}`\<close> and \<^verbatim>\<open>new Error(v)\<close> convert a value to a string. For a safe integer that
  is its decimal numeral, with a leading minus sign for a negative one. Beyond the safe
  integers JavaScript prints a shortest numeral that reads back as the same number, and
  from \<open>10^21\<close> on it prints it in exponent notation; the model does not say what the
  text is there.
\<close>

fun decimal :: "nat \<Rightarrow> string" where
  "decimal n =
     (if n < 10 then [''0123456789'' ! n]
      else decimal (n div 10) @ [''0123456789'' ! (n mod 10)])"

declare decimal.simps [simp del]

fun to_string :: "js_value \<Rightarrow> string" where
  "to_string (JString s) = s"
| "to_string (JNumber i) =
     (if safe_integer i
      then (if i < 0 then ''-'' @ decimal (nat (- i)) else decimal (nat i))
      else undefined)"

text \<open>
  \<^verbatim>\<open>String.prototype.toLowerCase\<close> on the letters \<open>A\<close> to \<open>Z\<close> (character codes 65 to 90);
  it is used to compare a message with a phrase without regard to the case of letters.
\<close>

definition toLowerCase :: "string \<Rightarrow> string" where
  "toLowerCase s =
     map (\<lambda>c. if 65 \<le> (of_char c :: nat) \<and> (of_char c :: nat) \<le> 90
              then char_of (of_char c + 32 :: nat) else c) s"

text \<open>\<^verbatim>\<open>new Error(message)\<close>, the only kind of value the facade throws.\<close>

datatype js_error = Error (message: string)

text \<open>
  The state a promise is left in once the engine has delivered its callback.
  \<open>Pending\<close> is a promise that neither \<^verbatim>\<open>resolve\<close> nor \<^verbatim>\<open>reject\<close> was called on.
\<close>

datatype ('a, 'r) settlement = Resolved 'a | Rejected 'r | Pending

text \<open>
  \<^verbatim>\<open>xs[i]\<close> for a number \<open>i\<close>: the element when \<open>i\<close> is an index of the array,
  \<^verbatim>\<open>undefined\<close> (\<open>None\<close>) otherwise. JavaScript neither raises nor clamps.
\<close>

definition js_index :: "'a list \<Rightarrow> int \<Rightarrow> 'a option" where
  "js_index xs i = (if 0 \<le> i \<and> i < int (length xs) then Some (xs ! nat i) else None)"

section \<open>Document and viewable loading\<close>

text \<open>
  The engine's side of \<^verbatim>\<open>load\<close>:
  \<^item> \<open>Document_load url\<close> is \<^verbatim>\<open>Autodesk.Viewing.Document.load(url, ok, err)\<close>: the
    callback it invokes, \<^verbatim>\<open>err(errorCode, errorMsg)\<close> as \<open>Inl\<close> or \<^verbatim>\<open>ok(doc)\<close> as
    \<open>Inr\<close>. The callback is delivered after \<^verbatim>\<open>load\<close> has returned its promise.
  \<^item> \<open>findByGuid doc guid\<close> is \<^verbatim>\<open>doc.getRoot().findByGuid(guid)\<close>, \<open>None\<close> for the
    falsy result.
  \<^item> \<open>search_geometry doc\<close> is \<^verbatim>\<open>doc.getRoot().search({ type: 'geometry' })\<close>.
  \<^item> \<open>loadDocumentNode doc node\<close> is \<^verbatim>\<open>viewer.loadDocumentNode(doc, node)\<close>: whether
    the call returns normally (\<open>True\<close>) or throws. The node handed over can be
    \<^verbatim>\<open>undefined\<close> (\<open>None\<close>).
\<close>

record ('d, 'v) document_engine =
  Document_load :: "string \<Rightarrow> (int \<times> string) + 'd"
  findByGuid :: "'d \<Rightarrow> string \<Rightarrow> 'v option"
  search_geometry :: "'d \<Rightarrow> 'v list"
  loadDocumentNode :: "'d \<Rightarrow> 'v option \<Rightarrow> bool"

text \<open>
  What one call of \<^verbatim>\<open>load\<close> does: the address it asks the engine to load, the nodes
  it hands to \<^verbatim>\<open>viewer.loadDocumentNode\<close>, in order, and the promise it returns.
\<close>

record ('d, 'v) load_outcome =
  requested :: string
  displayed :: "('d \<times> 'v option) list"
  promise :: "('v option, string) settlement"

text \<open>
  \<^verbatim>\<open>viewer.loadDocumentNode(doc, viewable); resolve(viewable);\<close> An exception of the
  first statement leaves the callback before \<^verbatim>\<open>resolve\<close>, and the promise pending.
\<close>

definition show_and_resolve ::
  "('d, 'v) document_engine \<Rightarrow> 'd \<Rightarrow> 'v option \<Rightarrow>
     ('d \<times> 'v option) list \<times> ('v option, string) settlement" where
  "show_and_resolve eng doc viewable =
     ([(doc, viewable)], if loadDocumentNode eng doc viewable then Resolved viewable else Pending)"

definition not_found :: "js_value \<Rightarrow> string" where
  "not_found viewableId = ''Viewable '' @ to_string viewableId @ '' not found.''"

definition onDocumentLoadSuccess ::
  "('d, 'v) document_engine \<Rightarrow> js_value \<Rightarrow> 'd \<Rightarrow>
     ('d \<times> 'v option) list \<times> ('v option, string) settlement" where
  "onDocumentLoadSuccess eng viewableId doc =
     (case viewableId of
        JString guid \<Rightarrow>
          (case findByGuid eng doc guid of
             Some viewable \<Rightarrow> show_and_resolve eng doc (Some viewable)
           | None \<Rightarrow> ([], Rejected (not_found viewableId)))
      | JNumber i \<Rightarrow>
          (let viewables = search_geometry eng doc in
           if i < int (length viewables)
           then show_and_resolve eng doc (js_index viewables i)
           else ([], Rejected (not_found viewableId))))"

definition onDocumentLoadError :: "int \<Rightarrow> string \<Rightarrow> string" where
  "onDocumentLoadError errorCode errorMsg =
     ''Document loading error: '' @ errorMsg @ '' ('' @ to_string (JNumber errorCode) @ '')''"

text \<open>\<^verbatim>\<open>load(documentUrn, viewableId = 0)\<close>; an omitted selector is \<open>None\<close>.\<close>

definition load ::
  "('d, 'v) document_engine \<Rightarrow> string \<Rightarrow> js_value option \<Rightarrow> ('d, 'v) load_outcome" where
  "load eng documentUrn viewableId =
     (let selector = (case viewableId of None \<Rightarrow> JNumber 0 | Some v \<Rightarrow> v);
          url = ''urn:'' @ documentUrn
      in case Document_load eng url of
           Inr doc \<Rightarrow>
             (let (shown, p) = onDocumentLoadSuccess eng selector doc
              in \<lparr>requested = url, displayed = shown, promise = p\<rparr>)
         | Inl (errorCode, errorMsg) \<Rightarrow>
             \<lparr>requested = url, displayed = [],
              promise = Rejected (onDocumentLoadError errorCode errorMsg)\<rparr>)"

section \<open>Ray casting\<close>

text \<open>
  One record of the array \<^verbatim>\<open>rayCast\<close> returns; \<open>distance\<close> is the distance of the
  intersection point from the camera, \<open>fragmentId\<close> the property \<^verbatim>\<open>fragId\<close>.
\<close>

record intersection =
  dbId :: int
  distance :: real
  fragmentId :: int

text \<open>
  The engine's side of \<^verbatim>\<open>rayCast\<close>, both on \<^verbatim>\<open>this.impl\<close>:
  \<open>clientToViewport x y\<close>, and \<open>castRayViewport vp ignoreTransparent dbIds modelIds
  intersections\<close>, whose value is the content of the array \<open>intersections\<close> when the
  call has returned (\<^verbatim>\<open>null\<close> is \<open>None\<close>).
\<close>

record 'vp ray_caster =
  clientToViewport :: "real \<Rightarrow> real \<Rightarrow> 'vp"
  castRayViewport ::
    "'vp \<Rightarrow> bool \<Rightarrow> int list option \<Rightarrow> int list option \<Rightarrow>
       intersection list \<Rightarrow> intersection list"

definition rayCast :: "'vp ray_caster \<Rightarrow> real \<Rightarrow> real \<Rightarrow> intersection list" where
  "rayCast impl x y =
     (let intersections = []
      in castRayViewport impl (clientToViewport impl x y) False None None intersections)"

text \<open>
  Modelled from the spec: the engine's ray caster is not in the sources. Section 6 of the
  spec requires of the engine "a ray-intersection query taking viewport coordinates and
  returning sorted intersection records", section 4.3 "sorted ascending by distance".
  \<open>sorted_ray_caster\<close> is that requirement, for the query as \<^verbatim>\<open>rayCast\<close> issues it.
\<close>

definition sorted_ray_caster :: "'vp ray_caster \<Rightarrow> bool" where
  "sorted_ray_caster impl \<longleftrightarrow>
     (\<forall>vp. sorted (map distance (castRayViewport impl vp False None None [])))"

section \<open>Overlay meshes\<close>

text \<open>
  \<^verbatim>\<open>this.impl.overlayScenes\<close>: the overlay scenes by name, each with the meshes it
  holds. A name with no scene reads \<^verbatim>\<open>undefined\<close> (\<open>None\<close>).
\<close>

type_synonym 'mesh overlayScenes = "string \<rightharpoonup> 'mesh set"

text \<open>
  Modelled from the spec: the engine's overlay manager (\<^verbatim>\<open>createOverlayScene\<close>,
  \<^verbatim>\<open>addOverlay\<close>, \<^verbatim>\<open>removeOverlay\<close>) is not in the sources. Section 4.4 of the spec: an
  overlay is created empty, and the engine "adds/removes the given mesh object to/from
  that overlay's render list"; section 8 speaks of "that overlay's mesh set"; "removal
  of a non-member mesh must be a no-op". The facade never calls \<^verbatim>\<open>addOverlay\<close> or
  \<^verbatim>\<open>removeOverlay\<close> for a name with no scene; the model leaves the scenes as they are
  there.
\<close>

definition createOverlayScene :: "'mesh overlayScenes \<Rightarrow> string \<Rightarrow> 'mesh overlayScenes" where
  "createOverlayScene scenes name = scenes(name \<mapsto> {})"

definition addOverlay :: "'mesh overlayScenes \<Rightarrow> string \<Rightarrow> 'mesh \<Rightarrow> 'mesh overlayScenes" where
  "addOverlay scenes name mesh =
     (case scenes name of None \<Rightarrow> scenes | Some meshes \<Rightarrow> scenes(name \<mapsto> insert mesh meshes))"

definition removeOverlay :: "'mesh overlayScenes \<Rightarrow> string \<Rightarrow> 'mesh \<Rightarrow> 'mesh overlayScenes" where
  "removeOverlay scenes name mesh =
     (case scenes name of None \<Rightarrow> scenes | Some meshes \<Rightarrow> scenes(name \<mapsto> meshes - {mesh}))"

text \<open>The default of the parameter \<^verbatim>\<open>overlay = 'UtilitiesOverlay'\<close>.\<close>

definition overlay_name :: "string option \<Rightarrow> string" where
  "overlay_name overlay = (case overlay of None \<Rightarrow> ''UtilitiesOverlay'' | Some name \<Rightarrow> name)"

definition addCustomMesh ::
  "'mesh overlayScenes \<Rightarrow> 'mesh \<Rightarrow> string option \<Rightarrow> 'mesh overlayScenes" where
  "addCustomMesh scenes mesh overlay =
     (let name = overlay_name overlay;
          scenes' = (if scenes name = None then createOverlayScene scenes name else scenes)
      in addOverlay scenes' name mesh)"

definition removeCustomMesh ::
  "'mesh overlayScenes \<Rightarrow> 'mesh \<Rightarrow> string option \<Rightarrow> 'mesh overlayScenes" where
  "removeCustomMesh scenes mesh overlay =
     (let name = overlay_name overlay;
          scenes' = (if scenes name = None then createOverlayScene scenes name else scenes)
      in removeOverlay scenes' name mesh)"

text \<open>The meshes of the overlay of a name; none when there is no such overlay.\<close>

definition meshes_of :: "'mesh overlayScenes \<Rightarrow> string \<Rightarrow> 'mesh set" where
  "meshes_of scenes name = (case scenes name of None \<Rightarrow> {} | Some meshes \<Rightarrow> meshes)"

section \<open>Scene and fragment enumeration\<close>

text \<open>
  The engine's object tree. \<open>nodeChildren parent recursive\<close> and
  \<open>nodeFragments parent recursive\<close> are the ids that
  \<^verbatim>\<open>tree.enumNodeChildren(parent, callback, recursive)\<close> and
  \<^verbatim>\<open>tree.enumNodeFragments(parent, callback, recursive)\<close> visit, in the order they visit
  them.
\<close>

record object_tree =
  getRootId :: int
  nodeChildren :: "int \<Rightarrow> bool \<Rightarrow> int list"
  getChildCount :: "int \<Rightarrow> nat"
  nodeFragments :: "int \<Rightarrow> bool \<Rightarrow> int list"

text \<open>
  Modelled from the spec: how the engine's traversals call back is not in the sources.
  Section 4.5 of the spec: the traversal "invokes the callback once per matching entity
  in tree order". A callback is a function of the id that changes a state \<open>'s\<close> (the
  array \<^verbatim>\<open>ids\<close> of the pull forms, whatever the caller's function writes to for the
  push forms); what it returns is not used. The parameter \<^verbatim>\<open>id\<close> of the source's
  callbacks is written \<open>nid\<close>.
\<close>

definition enumNodeChildren ::
  "object_tree \<Rightarrow> int \<Rightarrow> (int \<Rightarrow> 's \<Rightarrow> 's) \<Rightarrow> bool \<Rightarrow> 's \<Rightarrow> 's" where
  "enumNodeChildren tree parent callback recursive s =
     fold callback (nodeChildren tree parent recursive) s"

definition enumNodeFragments ::
  "object_tree \<Rightarrow> int \<Rightarrow> (int \<Rightarrow> 's \<Rightarrow> 's) \<Rightarrow> bool \<Rightarrow> 's \<Rightarrow> 's" where
  "enumNodeFragments tree parent callback recursive s =
     fold callback (nodeFragments tree parent recursive) s"

text \<open>
  \<^verbatim>\<open>viewer.getObjectTree(onSuccess, onError)\<close> is given by the callback it invokes,
  before it returns: \<^verbatim>\<open>onError(err)\<close> as \<open>Inl err\<close>, \<^verbatim>\<open>onSuccess(tree)\<close> as \<open>Inr tree\<close>.
\<close>

type_synonym getObjectTree = "js_value + object_tree"

text \<open>\<^verbatim>\<open>if (typeof parent === 'undefined') parent = tree.getRootId();\<close>\<close>

definition parent_or_root :: "object_tree \<Rightarrow> int option \<Rightarrow> int" where
  "parent_or_root tree parent = (case parent of None \<Rightarrow> getRootId tree | Some p \<Rightarrow> p)"

text \<open>\<^verbatim>\<open>function(id) { ids.push(id); }\<close>\<close>

definition push :: "int \<Rightarrow> int list \<Rightarrow> int list" where
  "push nid ids = ids @ [nid]"

definition enumerateNodes ::
  "getObjectTree \<Rightarrow> (int \<Rightarrow> 's \<Rightarrow> 's) \<Rightarrow> int option \<Rightarrow> 's \<Rightarrow> js_error + 's" where
  "enumerateNodes viewer callback parent s =
     (case viewer of
        Inr tree \<Rightarrow> Inr (enumNodeChildren tree (parent_or_root tree parent) callback True s)
      | Inl err \<Rightarrow> Inl (Error (to_string err)))"

definition listNodes :: "getObjectTree \<Rightarrow> int option \<Rightarrow> (int list, js_value) settlement" where
  "listNodes viewer parentId =
     (case viewer of
        Inr tree \<Rightarrow> Resolved (enumNodeChildren tree (parent_or_root tree parentId) push True [])
      | Inl err \<Rightarrow> Rejected err)"

text \<open>\<^verbatim>\<open>function onNode(id) { if (tree.getChildCount(id) === 0) callback(id); }\<close>\<close>

definition onNode :: "object_tree \<Rightarrow> (int \<Rightarrow> 's \<Rightarrow> 's) \<Rightarrow> int \<Rightarrow> 's \<Rightarrow> 's" where
  "onNode tree callback nid s = (if getChildCount tree nid = 0 then callback nid s else s)"

definition enumerateLeafNodes ::
  "getObjectTree \<Rightarrow> (int \<Rightarrow> 's \<Rightarrow> 's) \<Rightarrow> int option \<Rightarrow> 's \<Rightarrow> js_error + 's" where
  "enumerateLeafNodes viewer callback parent s =
     (case viewer of
        Inr tree \<Rightarrow>
          Inr (enumNodeChildren tree (parent_or_root tree parent) (onNode tree callback) True s)
      | Inl err \<Rightarrow> Inl (Error (to_string err)))"

definition listLeafNodes :: "getObjectTree \<Rightarrow> int option \<Rightarrow> (int list, js_value) settlement" where
  "listLeafNodes viewer parentId =
     (case viewer of
        Inr tree \<Rightarrow>
          Resolved
            (enumNodeChildren tree (parent_or_root tree parentId)
               (\<lambda>nid ids. if getChildCount tree nid = 0 then push nid ids else ids) True [])
      | Inl err \<Rightarrow> Rejected err)"

definition enumerateFragments ::
  "getObjectTree \<Rightarrow> (int \<Rightarrow> 's \<Rightarrow> 's) \<Rightarrow> int option \<Rightarrow> 's \<Rightarrow> js_error + 's" where
  "enumerateFragments viewer callback parent s =
     (case viewer of
        Inr tree \<Rightarrow> Inr (enumNodeFragments tree (parent_or_root tree parent) callback True s)
      | Inl err \<Rightarrow> Inl (Error (to_string err)))"

definition listFragments :: "getObjectTree \<Rightarrow> int option \<Rightarrow> (int list, js_value) settlement" where
  "listFragments viewer parentId =
     (case viewer of
        Inr tree \<Rightarrow> Resolved (enumNodeFragments tree (parent_or_root tree parentId) push True [])
      | Inl err \<Rightarrow> Rejected err)"

section \<open>Fragment transforms\<close>

text \<open>
  The auxiliary transform of a fragment: a scale vector, a rotation quaternion and an
  offset vector. Vectors, quaternions, boxes and matrices are the engine's; the facade
  only passes them on, so they are type parameters.
\<close>

record ('vec, 'quat) aux_transform =
  aux_scale :: 'vec
  aux_rotation :: 'quat
  aux_position :: 'vec

text \<open>
  The engine's fragment list, \<^verbatim>\<open>viewer.model.getFragmentList()\<close>: the auxiliary
  transforms by fragment id (\<open>animxforms\<close>), and what the three queries write to the box or
  matrix handed to them. The world bounds and the final matrix of a fragment may depend
  on the auxiliary transforms, the original matrix does not.
\<close>

record ('box, 'mat, 'vec, 'quat) fragment_list =
  worldBounds :: "(int \<Rightarrow> ('vec, 'quat) aux_transform) \<Rightarrow> int \<Rightarrow> 'box"
  originalWorldMatrix :: "int \<Rightarrow> 'mat"
  worldMatrix :: "(int \<Rightarrow> ('vec, 'quat) aux_transform) \<Rightarrow> int \<Rightarrow> 'mat"
  animxforms :: "int \<Rightarrow> ('vec, 'quat) aux_transform"

definition getWorldBounds :: "('box, 'mat, 'vec, 'quat) fragment_list \<Rightarrow> int \<Rightarrow> 'box" where
  "getWorldBounds frags fragId = worldBounds frags (animxforms frags) fragId"

definition getOriginalWorldMatrix :: "('box, 'mat, 'vec, 'quat) fragment_list \<Rightarrow> int \<Rightarrow> 'mat" where
  "getOriginalWorldMatrix frags fragId = originalWorldMatrix frags fragId"

definition getWorldMatrix :: "('box, 'mat, 'vec, 'quat) fragment_list \<Rightarrow> int \<Rightarrow> 'mat" where
  "getWorldMatrix frags fragId = worldMatrix frags (animxforms frags) fragId"

text \<open>
  Modelled from the spec: the engine's \<^verbatim>\<open>getAnimTransform\<close> and \<^verbatim>\<open>updateAnimTransform\<close>
  are not in the sources. Section 4.6 of the spec: the first "populates caller-provided
  mutable scale/rotation/translation outputs with the current auxiliary (on-top)
  transform"; the second "updates the auxiliary transform; any omitted component leaves
  that component unchanged (must be tri-state: unset = no-op for that component, not
  reset-to-identity)". An omitted or \<^verbatim>\<open>null\<close> argument is \<open>None\<close>.
\<close>

definition getAnimTransform ::
  "('box, 'mat, 'vec, 'quat) fragment_list \<Rightarrow> int \<Rightarrow> ('vec, 'quat) aux_transform" where
  "getAnimTransform frags fragId = animxforms frags fragId"

definition updateAnimTransform ::
  "('box, 'mat, 'vec, 'quat) fragment_list \<Rightarrow> int \<Rightarrow> 'vec option \<Rightarrow> 'quat option \<Rightarrow>
     'vec option \<Rightarrow> ('box, 'mat, 'vec, 'quat) fragment_list" where
  "updateAnimTransform frags fragId scale rotation position =
     (let old = animxforms frags fragId
      in frags\<lparr>animxforms := (animxforms frags)
           (fragId :=
              \<lparr>aux_scale = (case scale of None \<Rightarrow> aux_scale old | Some v \<Rightarrow> v),
               aux_rotation = (case rotation of None \<Rightarrow> aux_rotation old | Some q \<Rightarrow> q),
               aux_position = (case position of None \<Rightarrow> aux_position old | Some v \<Rightarrow> v)\<rparr>)\<rparr>)"

text \<open>The message of the error the five operations throw when \<^verbatim>\<open>viewer.model\<close> is falsy.\<close>

definition fragments_not_available :: string where
  "fragments_not_available =
     ''Fragments not yet available. Wait for Autodesk.Viewing.FRAGMENTS_LOADED_EVENT event.''"

text \<open>
  \<^verbatim>\<open>viewer.model\<close> is \<open>None\<close> when no model is loaded, and else the model, taken with its
  fragment list. Each operation returns what it throws (\<open>Inl\<close>) or what it returns
  (\<open>Inr\<close>). \<^verbatim>\<open>getFragmentAuxTransform\<close> returns nothing in the source: its value here is what
  it leaves in the three objects handed to it. \<^verbatim>\<open>setFragmentAuxTransform\<close> returns nothing
  either: its value here is the fragment list after the call.
\<close>

definition getFragmentBounds ::
  "('box, 'mat, 'vec, 'quat) fragment_list option \<Rightarrow> int \<Rightarrow> js_error + 'box" where
  "getFragmentBounds model fragId =
     (case model of
        None \<Rightarrow> Inl (Error fragments_not_available)
      | Some frags \<Rightarrow> Inr (getWorldBounds frags fragId))"

definition getFragmentOrigTransform ::
  "('box, 'mat, 'vec, 'quat) fragment_list option \<Rightarrow> int \<Rightarrow> js_error + 'mat" where
  "getFragmentOrigTransform model fragId =
     (case model of
        None \<Rightarrow> Inl (Error fragments_not_available)
      | Some frags \<Rightarrow> Inr (getOriginalWorldMatrix frags fragId))"

definition getFragmentAuxTransform ::
  "('box, 'mat, 'vec, 'quat) fragment_list option \<Rightarrow> int \<Rightarrow>
     js_error + ('vec, 'quat) aux_transform" where
  "getFragmentAuxTransform model fragId =
     (case model of
        None \<Rightarrow> Inl (Error fragments_not_available)
      | Some frags \<Rightarrow> Inr (getAnimTransform frags fragId))"

definition setFragmentAuxTransform ::
  "('box, 'mat, 'vec, 'quat) fragment_list option \<Rightarrow> int \<Rightarrow> 'vec option \<Rightarrow> 'quat option \<Rightarrow>
     'vec option \<Rightarrow> js_error + ('box, 'mat, 'vec, 'quat) fragment_list" where
  "setFragmentAuxTransform model fragId scale rotation position =
     (case model of
        None \<Rightarrow> Inl (Error fragments_not_available)
      | Some frags \<Rightarrow> Inr (updateAnimTransform frags fragId scale rotation position))"

definition getFragmentTransform ::
  "('box, 'mat, 'vec, 'quat) fragment_list option \<Rightarrow> int \<Rightarrow> js_error + 'mat" where
  "getFragmentTransform model fragId =
     (case model of
        None \<Rightarrow> Inl (Error fragments_not_available)
      | Some frags \<Rightarrow> Inr (getWorldMatrix frags fragId))"

section \<open>Example engines\<close>

text \<open>
  A document is the list of its viewables, each a guid with its type; the loader knows
  one address.
\<close>

definition example_documents :: "((string \<times> string) list, string) document_engine" where
  "example_documents =
     \<lparr>Document_load = (\<lambda>url.
        if url = ''urn:dXJuOmFkc2s''
        then Inr [(''thumb'', ''resource''), (''g1'', ''geometry''), (''g2'', ''geometry'')]
        else Inl (4, ''not found'')),
      findByGuid = (\<lambda>doc guid. if guid \<in> set (map fst doc) then Some guid else None),
      search_geometry = (\<lambda>doc. map fst (filter (\<lambda>v. snd v = ''geometry'') doc)),
      loadDocumentNode = (\<lambda>doc node. True)\<rparr>"

text \<open>
  The tree of the spec's scenario: root 0 with children 1 and 2, node 1 with children 3
  and 4, node 2 a leaf.
\<close>

definition example_tree :: object_tree where
  "example_tree =
     \<lparr>getRootId = 0,
      nodeChildren = (\<lambda>parent recursive.
        if parent = 0 then (if recursive then [1, 2, 3, 4] else [1, 2])
        else if parent = 1 then [3, 4] else []),
      getChildCount = (\<lambda>nid. if nid = 0 \<or> nid = 1 then 2 else 0),
      nodeFragments = (\<lambda>parent recursive.
        if parent = 0 then [10, 11, 12] else if parent = 1 then [10, 11] else [12])\<rparr>"

text \<open>A ray caster with two objects under the canvas point \<open>(5, 5)\<close> and none elsewhere.\<close>

definition example_caster :: "(real \<times> real) ray_caster" where
  "example_caster =
     \<lparr>clientToViewport = (\<lambda>x y. (x / 10 - 1, 1 - y / 10)),
      castRayViewport = (\<lambda>vp ignoreTransparent dbIds modelIds intersections.
        if vp = (- 1 / 2, 1 / 2)
        then intersections @
          [\<lparr>dbId = 7, distance = 2, fragmentId = 1\<rparr>, \<lparr>dbId = 3, distance = 9 / 2, fragmentId = 4\<rparr>]
        else intersections)\<rparr>"

text \<open>
  A fragment list over integers: a vector is one number, and so is a quaternion, a box
  and a matrix.
\<close>

definition example_fragments :: "(int, int, int, int) fragment_list" where
  "example_fragments =
     \<lparr>worldBounds = (\<lambda>aux fragId. fragId + aux_position (aux fragId)),
      originalWorldMatrix = (\<lambda>fragId. fragId),
      worldMatrix = (\<lambda>aux fragId. fragId * aux_scale (aux fragId)),
      animxforms = (\<lambda>fragId. \<lparr>aux_scale = 2, aux_rotation = 3, aux_position = 5\<rparr>)\<rparr>"

section \<open>Properties of document loading\<close>

lemma load_requested: "requested (load eng documentUrn viewableId) = ''urn:'' @ documentUrn"
  by (simp add: load_def Let_def split: sum.split prod.split)

lemma load_failure:
  "Document_load eng (''urn:'' @ documentUrn) = Inl (errorCode, errorMsg) \<Longrightarrow>
   promise (load eng documentUrn viewableId) =
     Rejected (''Document loading error: '' @ errorMsg @
       '' ('' @ to_string (JNumber errorCode) @ '')'')"
  by (simp add: load_def onDocumentLoadError_def)

lemma load_success:
  "Document_load eng (''urn:'' @ documentUrn) = Inr doc \<Longrightarrow>
   promise (load eng documentUrn viewableId) =
     snd (onDocumentLoadSuccess eng (case viewableId of None \<Rightarrow> JNumber 0 | Some v \<Rightarrow> v) doc)"
  by (simp add: load_def split: prod.split)

text \<open>
  A guid that the document knows resolves with its viewable, any other guid rejects with
  a message that quotes it.
\<close>

lemma load_guid:
  "Document_load eng (''urn:'' @ documentUrn) = Inr doc \<Longrightarrow>
   promise (load eng documentUrn (Some (JString guid))) =
     (case findByGuid eng doc guid of
        None \<Rightarrow> Rejected (''Viewable '' @ guid @ '' not found.'')
      | Some viewable \<Rightarrow>
          if loadDocumentNode eng doc (Some viewable) then Resolved (Some viewable) else Pending)"
  by (simp add: load_success onDocumentLoadSuccess_def show_and_resolve_def not_found_def
      split: option.split)

text \<open>
  An index is compared with the number of geometry viewables from above only: at or
  above it the promise is rejected, from 0 up to it the viewable at the index is shown
  and resolved, and below 0 \<^verbatim>\<open>undefined\<close> is handed to \<^verbatim>\<open>viewer.loadDocumentNode\<close> and to
  \<^verbatim>\<open>resolve\<close>.
\<close>

lemma load_index:
  "Document_load eng (''urn:'' @ documentUrn) = Inr doc \<Longrightarrow>
   promise (load eng documentUrn (Some (JNumber i))) =
     (if int (length (search_geometry eng doc)) \<le> i
      then Rejected (''Viewable '' @ to_string (JNumber i) @ '' not found.'')
      else if i < 0
      then (if loadDocumentNode eng doc None then Resolved None else Pending)
      else if loadDocumentNode eng doc (Some (search_geometry eng doc ! nat i))
      then Resolved (Some (search_geometry eng doc ! nat i)) else Pending)"
  by (simp add: load_success onDocumentLoadSuccess_def show_and_resolve_def not_found_def
      js_index_def Let_def)

lemma load_default_index:
  "load eng documentUrn None = load eng documentUrn (Some (JNumber 0))"
  by (simp add: load_def)

text \<open>The messages of the example engine: an index past the end, and an unknown address.\<close>

lemma load_example_messages:
  "promise (load example_documents ''dXJuOmFkc2s'' (Some (JNumber 2))) =
     Rejected ''Viewable 2 not found.'' \<and>
   promise (load example_documents ''other'' None) =
     Rejected ''Document loading error: not found (4)''"
  by (simp add: load_def onDocumentLoadSuccess_def onDocumentLoadError_def not_found_def
      safe_integer_def decimal.simps example_documents_def)

lemma onDocumentLoadSuccess_loader:
  "onDocumentLoadSuccess (eng\<lparr>Document_load := f\<rparr>) selector doc =
     onDocumentLoadSuccess eng selector doc"
  by (simp add: onDocumentLoadSuccess_def show_and_resolve_def Let_def
      split: js_value.split option.split)

text \<open>
  C1. The example document has the geometry viewables \<open>g1\<close> and \<open>g2\<close>. For the index
  \<open>-1\<close>, which is out of the bounds of that list, \<^verbatim>\<open>load\<close> hands \<^verbatim>\<open>undefined\<close> to
  \<^verbatim>\<open>viewer.loadDocumentNode\<close> and resolves its promise with \<^verbatim>\<open>undefined\<close>; it does not
  reject.
\<close>

theorem load_negative_index_resolves_undefined:
  "search_geometry example_documents
     [(''thumb'', ''resource''), (''g1'', ''geometry''), (''g2'', ''geometry'')] =
     [''g1'', ''g2''] \<and>
   load example_documents ''dXJuOmFkc2s'' (Some (JNumber (- 1))) =
     \<lparr>requested = ''urn:dXJuOmFkc2s'',
      displayed =
        [([(''thumb'', ''resource''), (''g1'', ''geometry''), (''g2'', ''geometry'')], None)],
      promise = Resolved None\<rparr>"
  by (simp add: load_def onDocumentLoadSuccess_def show_and_resolve_def js_index_def
      example_documents_def)

text \<open>
  C2. The index \<open>-3\<close> selects no viewable of the example document (\<^verbatim>\<open>viewables[-3]\<close> is
  \<^verbatim>\<open>undefined\<close>), and the document loads; yet the promise of \<^verbatim>\<open>load\<close> is not rejected,
  with any message.
\<close>

theorem load_below_range_is_not_rejected:
  "js_index (search_geometry example_documents
     [(''thumb'', ''resource''), (''g1'', ''geometry''), (''g2'', ''geometry'')]) (- 3) = None \<and>
   (\<forall>msg. promise (load example_documents ''dXJuOmFkc2s'' (Some (JNumber (- 3)))) \<noteq>
      Rejected msg)"
  by (simp add: load_def onDocumentLoadSuccess_def show_and_resolve_def js_index_def
      example_documents_def)

text \<open>
  C10. For every \<^verbatim>\<open>documentUrn\<close>, the address \<^verbatim>\<open>load\<close> passes to the engine's document
  loader is \<^verbatim>\<open>'urn:'\<close> followed by \<^verbatim>\<open>documentUrn\<close>, so an identifier that already starts
  with \<^verbatim>\<open>urn:\<close> is asked for with the prefix twice; and that address is the only one the
  outcome of \<^verbatim>\<open>load\<close> depends on: a loader that fails at every other address gives the
  same outcome.
\<close>

theorem load_requests_prefixed_urn:
  "requested (load eng documentUrn viewableId) = ''urn:'' @ documentUrn \<and>
   requested (load eng (''urn:'' @ documentUrn) viewableId) = ''urn:urn:'' @ documentUrn \<and>
   load eng documentUrn viewableId =
     load (eng\<lparr>Document_load := \<lambda>url.
        if url = ''urn:'' @ documentUrn then Document_load eng url else Inl (0, [])\<rparr>)
       documentUrn viewableId"
proof -
  have "load eng documentUrn viewableId =
     load (eng\<lparr>Document_load := \<lambda>url.
        if url = ''urn:'' @ documentUrn then Document_load eng url else Inl (0, [])\<rparr>)
       documentUrn viewableId"
    by (simp add: load_def Let_def onDocumentLoadSuccess_loader cong: sum.case_cong)
  then show ?thesis
    by (simp add: load_requested)
qed

section \<open>Properties of ray casting\<close>

text \<open>
  C7. With an engine whose ray caster returns its records sorted by distance, for every
  canvas point \<open>(x, y)\<close> the value of \<^verbatim>\<open>rayCast\<close> is what the engine's \<^verbatim>\<open>castRayViewport\<close>
  leaves in a fresh, empty array for the viewport point that \<^verbatim>\<open>clientToViewport\<close> makes
  of \<open>(x, y)\<close>; it is sorted ascending by distance, and it is empty when the engine adds no
  record.
\<close>

theorem rayCast_sorted_by_distance:
  assumes "sorted_ray_caster impl"
  shows "rayCast impl x y =
           castRayViewport impl (clientToViewport impl x y) False None None [] \<and>
         sorted (map distance (rayCast impl x y)) \<and>
         (castRayViewport impl (clientToViewport impl x y) False None None [] = [] \<longrightarrow>
            rayCast impl x y = [])"
  using assms by (simp add: rayCast_def sorted_ray_caster_def)

text \<open>
  C7, at the example caster: two records under the canvas point \<open>(5, 5)\<close>, at the
  distances 2 and 4.5, and none under \<open>(0, 0)\<close>.
\<close>

theorem rayCast_sorted_by_distance_witness:
  "sorted_ray_caster example_caster \<and>
   map distance (rayCast example_caster 5 5) = [2, 9 / 2] \<and>
   sorted (map distance (rayCast example_caster 5 5)) \<and>
   rayCast example_caster 0 0 = []"
proof -
  have contract: "sorted_ray_caster example_caster"
    by (simp add: sorted_ray_caster_def example_caster_def)
  have hit: "map distance (rayCast example_caster 5 5) = [2, 9 / 2]"
    by (simp add: rayCast_def example_caster_def)
  have miss: "rayCast example_caster 0 0 = []"
    by (simp add: rayCast_def example_caster_def)
  from rayCast_sorted_by_distance [OF contract, of 5 5] contract hit miss
  show ?thesis by simp
qed

section \<open>Properties of overlay meshes\<close>

text \<open>
  C8, as stated, fails for a mesh that the overlay already holds: adding it changes
  nothing, removing it takes it away, so the overlay that held mesh 1 ends empty.
\<close>

theorem add_then_remove_drops_member:
  "meshes_of [''scene'' \<mapsto> {1 :: nat}] ''scene'' = {1} \<and>
   meshes_of (removeCustomMesh (addCustomMesh [''scene'' \<mapsto> {1 :: nat}] 1 (Some ''scene''))
       1 (Some ''scene'')) ''scene'' = {}"
  by (simp add: meshes_of_def removeCustomMesh_def addCustomMesh_def overlay_name_def
      createOverlayScene_def addOverlay_def removeOverlay_def)

text \<open>
  C8, amended. For every overlay name and every mesh that the named overlay does not
  hold before, \<^verbatim>\<open>addCustomMesh\<close> followed by \<^verbatim>\<open>removeCustomMesh\<close> with the same mesh and
  name leaves that overlay's set of meshes as it was before the \<^verbatim>\<open>addCustomMesh\<close>.
\<close>

theorem add_then_remove_roundtrip:
  "mesh \<notin> meshes_of scenes (overlay_name overlay) \<Longrightarrow>
   meshes_of (removeCustomMesh (addCustomMesh scenes mesh overlay) mesh overlay)
       (overlay_name overlay) =
     meshes_of scenes (overlay_name overlay)"
  by (auto simp add: meshes_of_def removeCustomMesh_def addCustomMesh_def
      createOverlayScene_def addOverlay_def removeOverlay_def Let_def split: option.splits)

text \<open>C8, amended, at the overlay that holds mesh 1, for mesh 2.\<close>

theorem add_then_remove_roundtrip_witness:
  "(2 :: nat) \<notin> meshes_of [''scene'' \<mapsto> {1}] (overlay_name (Some ''scene'')) \<and>
   meshes_of (removeCustomMesh (addCustomMesh [''scene'' \<mapsto> {1 :: nat}] 2 (Some ''scene''))
       2 (Some ''scene'')) ''scene'' = {1}"
proof -
  have fresh: "(2 :: nat) \<notin> meshes_of [''scene'' \<mapsto> {1}] (overlay_name (Some ''scene''))"
    by (simp add: meshes_of_def overlay_name_def)
  from add_then_remove_roundtrip [OF fresh] fresh show ?thesis
    by (simp add: meshes_of_def overlay_name_def)
qed

text \<open>
  C9, as stated, fails where the named overlay does not exist yet: \<^verbatim>\<open>removeCustomMesh\<close>
  creates it, so the overlay scenes are not what they were.
\<close>

theorem removeCustomMesh_creates_overlay:
  "(Map.empty :: nat overlayScenes) ''scene'' = None \<and>
   removeCustomMesh (Map.empty :: nat overlayScenes) 1 (Some ''scene'') ''scene'' = Some {}"
  by (simp add: removeCustomMesh_def overlay_name_def createOverlayScene_def removeOverlay_def)

text \<open>
  C9, amended. For every mesh that is not in the named overlay's set of meshes,
  \<^verbatim>\<open>removeCustomMesh\<close> raises no error and leaves the set of meshes of every overlay as it
  was; the overlay scenes are unchanged when the named overlay exists, and when it does
  not, the one change is that it is created, empty.
\<close>

theorem removeCustomMesh_of_non_member:
  "mesh \<notin> meshes_of scenes (overlay_name overlay) \<Longrightarrow>
   removeCustomMesh scenes mesh overlay =
     (if scenes (overlay_name overlay) = None
      then scenes(overlay_name overlay \<mapsto> {}) else scenes) \<and>
   (\<forall>name. meshes_of (removeCustomMesh scenes mesh overlay) name = meshes_of scenes name)"
  by (auto simp add: meshes_of_def removeCustomMesh_def
      createOverlayScene_def removeOverlay_def Let_def fun_upd_idem split: option.splits)

text \<open>
  C9, amended, at an existing overlay that does not hold the mesh, and at no overlay at
  all with the default name.
\<close>

theorem removeCustomMesh_of_non_member_witness:
  "(2 :: nat) \<notin> meshes_of [''scene'' \<mapsto> {1}] (overlay_name (Some ''scene'')) \<and>
   removeCustomMesh [''scene'' \<mapsto> {1 :: nat}] 2 (Some ''scene'') = [''scene'' \<mapsto> {1}] \<and>
   (2 :: nat) \<notin> meshes_of Map.empty (overlay_name None) \<and>
   removeCustomMesh Map.empty (2 :: nat) None = [''UtilitiesOverlay'' \<mapsto> {}]"
proof -
  have a: "(2 :: nat) \<notin> meshes_of [''scene'' \<mapsto> {1}] (overlay_name (Some ''scene''))"
    by (simp add: meshes_of_def overlay_name_def)
  have b: "(2 :: nat) \<notin> meshes_of Map.empty (overlay_name None)"
    by (simp add: meshes_of_def)
  from removeCustomMesh_of_non_member [OF a] removeCustomMesh_of_non_member [OF b] a b
  show ?thesis
    by (simp add: overlay_name_def)
qed

section \<open>Properties of the enumerations\<close>

lemma fold_push: "fold push xs acc = acc @ xs"
  by (induction xs arbitrary: acc) (simp_all add: push_def)

lemma fold_push_if:
  "fold (\<lambda>nid ids. if P nid then push nid ids else ids) xs acc = acc @ filter P xs"
  by (induction xs arbitrary: acc) (simp_all add: push_def)

lemma fold_onNode:
  "fold (onNode tree callback) xs s =
     fold callback (filter (\<lambda>nid. getChildCount tree nid = 0) xs) s"
  by (induction xs arbitrary: s) (simp_all add: onNode_def)

lemma listNodes_ids:
  "listNodes (Inr tree) parentId =
     Resolved (nodeChildren tree (parent_or_root tree parentId) True)"
  by (simp add: listNodes_def enumNodeChildren_def fold_push)

lemma listLeafNodes_ids:
  "listLeafNodes (Inr tree) parentId =
     Resolved (filter (\<lambda>nid. getChildCount tree nid = 0)
       (nodeChildren tree (parent_or_root tree parentId) True))"
  by (simp add: listLeafNodes_def enumNodeChildren_def fold_push_if)

lemma listFragments_ids:
  "listFragments (Inr tree) parentId =
     Resolved (nodeFragments tree (parent_or_root tree parentId) True)"
  by (simp add: listFragments_def enumNodeFragments_def fold_push)

lemma enumerateNodes_ids:
  "enumerateNodes (Inr tree) callback parent s =
     Inr (fold callback (nodeChildren tree (parent_or_root tree parent) True) s)"
  by (simp add: enumerateNodes_def enumNodeChildren_def)

lemma enumerateLeafNodes_ids:
  "enumerateLeafNodes (Inr tree) callback parent s =
     Inr (fold callback (filter (\<lambda>nid. getChildCount tree nid = 0)
       (nodeChildren tree (parent_or_root tree parent) True)) s)"
  by (simp add: enumerateLeafNodes_def enumNodeChildren_def fold_onNode)

lemma enumerateFragments_ids:
  "enumerateFragments (Inr tree) callback parent s =
     Inr (fold callback (nodeFragments tree (parent_or_root tree parent) True) s)"
  by (simp add: enumerateFragments_def enumNodeFragments_def)

text \<open>The scenario of section 8 of the spec.\<close>

lemma example_tree_lists:
  "listNodes (Inr example_tree) None = Resolved [1, 2, 3, 4] \<and>
   listLeafNodes (Inr example_tree) None = Resolved [2, 3, 4]"
  by (simp add: listNodes_ids listLeafNodes_ids parent_or_root_def example_tree_def)

text \<open>
  C5. For every available object tree and every parent id (the root when it is
  omitted), \<^verbatim>\<open>listLeafNodes\<close> resolves with the ids \<^verbatim>\<open>listNodes\<close> resolves with whose child
  count, as the tree reports it during the traversal, is zero, in the same order.
\<close>

theorem listLeafNodes_filters_listNodes:
  "\<exists>ids. listNodes (Inr tree) parentId = Resolved ids \<and>
     listLeafNodes (Inr tree) parentId =
       Resolved (filter (\<lambda>nid. getChildCount tree nid = 0) ids)"
  by (simp add: listNodes_ids listLeafNodes_ids)

text \<open>
  C6. For every available object tree and every parent argument, each pull form
  resolves with a sequence \<open>ids\<close> such that the push form of the same kind applies the
  caller's callback to exactly the elements of \<open>ids\<close>, in that order (so a callback that
  records its arguments ends with \<open>ids\<close>). When the tree is unavailable, with the engine's
  error \<open>err\<close>, each pull form rejects with \<open>err\<close> and each push form throws an error made of
  \<open>err\<close>.
\<close>

theorem pull_forms_follow_push_forms:
  "(\<exists>ids. listNodes (Inr tree) parent = Resolved ids \<and>
      enumerateNodes (Inr tree) callback parent s = Inr (fold callback ids s) \<and>
      enumerateNodes (Inr tree) push parent [] = Inr ids) \<and>
   (\<exists>ids. listLeafNodes (Inr tree) parent = Resolved ids \<and>
      enumerateLeafNodes (Inr tree) callback parent s = Inr (fold callback ids s) \<and>
      enumerateLeafNodes (Inr tree) push parent [] = Inr ids) \<and>
   (\<exists>ids. listFragments (Inr tree) parent = Resolved ids \<and>
      enumerateFragments (Inr tree) callback parent s = Inr (fold callback ids s) \<and>
      enumerateFragments (Inr tree) push parent [] = Inr ids) \<and>
   listNodes (Inl err) parent = Rejected err \<and>
   enumerateNodes (Inl err) callback parent s = Inl (Error (to_string err)) \<and>
   listLeafNodes (Inl err) parent = Rejected err \<and>
   enumerateLeafNodes (Inl err) callback parent s = Inl (Error (to_string err)) \<and>
   listFragments (Inl err) parent = Rejected err \<and>
   enumerateFragments (Inl err) callback parent s = Inl (Error (to_string err))"
proof -
  have available:
    "\<exists>ids. listNodes (Inr tree) parent = Resolved ids \<and>
        enumerateNodes (Inr tree) callback parent s = Inr (fold callback ids s) \<and>
        enumerateNodes (Inr tree) push parent [] = Inr ids"
    "\<exists>ids. listLeafNodes (Inr tree) parent = Resolved ids \<and>
        enumerateLeafNodes (Inr tree) callback parent s = Inr (fold callback ids s) \<and>
        enumerateLeafNodes (Inr tree) push parent [] = Inr ids"
    "\<exists>ids. listFragments (Inr tree) parent = Resolved ids \<and>
        enumerateFragments (Inr tree) callback parent s = Inr (fold callback ids s) \<and>
        enumerateFragments (Inr tree) push parent [] = Inr ids"
    by (simp_all add: listNodes_ids listLeafNodes_ids listFragments_ids
        enumerateNodes_ids enumerateLeafNodes_ids enumerateFragments_ids fold_push)
  have unavailable:
    "listNodes (Inl err) parent = Rejected err"
    "enumerateNodes (Inl err) callback parent s = Inl (Error (to_string err))"
    "listLeafNodes (Inl err) parent = Rejected err"
    "enumerateLeafNodes (Inl err) callback parent s = Inl (Error (to_string err))"
    "listFragments (Inl err) parent = Rejected err"
    "enumerateFragments (Inl err) callback parent s = Inl (Error (to_string err))"
    by (simp_all add: listNodes_def listLeafNodes_def listFragments_def
        enumerateNodes_def enumerateLeafNodes_def enumerateFragments_def)
  from available unavailable show ?thesis by blast
qed

section \<open>Properties of the fragment transforms\<close>

lemma fragments_not_available_text:
  "sublist ''Fragments not yet available'' fragments_not_available"
  by (simp add: fragments_not_available_def sublist_Cons_right)

lemma fragments_not_available_phrase:
  "sublist ''fragments not yet available'' (toLowerCase fragments_not_available)"
  by code_simp

lemma getAnimTransform_updateAnimTransform:
  "getAnimTransform (updateAnimTransform frags fragId scale rotation position) fragId =
     \<lparr>aux_scale =
        (case scale of None \<Rightarrow> aux_scale (getAnimTransform frags fragId) | Some v \<Rightarrow> v),
      aux_rotation =
        (case rotation of None \<Rightarrow> aux_rotation (getAnimTransform frags fragId) | Some q \<Rightarrow> q),
      aux_position =
        (case position of None \<Rightarrow> aux_position (getAnimTransform frags fragId) | Some v \<Rightarrow> v)\<rparr>"
  by (simp add: getAnimTransform_def updateAnimTransform_def Let_def split: option.split)

text \<open>
  C3. Each of the five fragment-transform operations (\<^verbatim>\<open>getFragmentBounds\<close>,
  \<^verbatim>\<open>getFragmentOrigTransform\<close>, \<^verbatim>\<open>getFragmentAuxTransform\<close>, \<^verbatim>\<open>setFragmentAuxTransform\<close>,
  \<^verbatim>\<open>getFragmentTransform\<close>) throws if and only if no model is loaded, and what it throws
  then is an error whose message contains the phrase \<^verbatim>\<open>fragments not yet available\<close>
  (it starts the message, with a capital F). With a model loaded the operation succeeds
  for any valid fragment id: it returns what the engine's fragment list gives for the id,
  and the facade adds no failure of its own for any id.
\<close>

theorem fragment_operations_need_model:
  "(isl (getFragmentBounds model fragId) \<longleftrightarrow> model = None) \<and>
   (isl (getFragmentOrigTransform model fragId) \<longleftrightarrow> model = None) \<and>
   (isl (getFragmentAuxTransform model fragId) \<longleftrightarrow> model = None) \<and>
   (isl (setFragmentAuxTransform model fragId scale rotation position) \<longleftrightarrow> model = None) \<and>
   (isl (getFragmentTransform model fragId) \<longleftrightarrow> model = None) \<and>
   (case model of
      None \<Rightarrow>
        getFragmentBounds model fragId = Inl (Error fragments_not_available) \<and>
        getFragmentOrigTransform model fragId = Inl (Error fragments_not_available) \<and>
        getFragmentAuxTransform model fragId = Inl (Error fragments_not_available) \<and>
        setFragmentAuxTransform model fragId scale rotation position =
          Inl (Error fragments_not_available) \<and>
        getFragmentTransform model fragId = Inl (Error fragments_not_available)
    | Some frags \<Rightarrow>
        getFragmentBounds model fragId = Inr (getWorldBounds frags fragId) \<and>
        getFragmentOrigTransform model fragId = Inr (getOriginalWorldMatrix frags fragId) \<and>
        getFragmentAuxTransform model fragId = Inr (getAnimTransform frags fragId) \<and>
        setFragmentAuxTransform model fragId scale rotation position =
          Inr (updateAnimTransform frags fragId scale rotation position) \<and>
        getFragmentTransform model fragId = Inr (getWorldMatrix frags fragId)) \<and>
   sublist ''fragments not yet available'' (toLowerCase fragments_not_available) \<and>
   sublist ''Fragments not yet available'' fragments_not_available"
  by (cases model)
    (simp_all add: getFragmentBounds_def getFragmentOrigTransform_def
      getFragmentAuxTransform_def setFragmentAuxTransform_def getFragmentTransform_def
      fragments_not_available_text fragments_not_available_phrase)

text \<open>
  C3, at the example fragment list and fragment 4: bounds 9, original matrix 4, final
  matrix 8; and the thrown error with no model.
\<close>

theorem fragment_operations_need_model_witness:
  "getFragmentBounds (Some example_fragments) 4 = Inr 9 \<and>
   getFragmentOrigTransform (Some example_fragments) 4 = Inr 4 \<and>
   getFragmentTransform (Some example_fragments) 4 = Inr 8 \<and>
   isl (getFragmentTransform (None :: (int, int, int, int) fragment_list option) 4)"
proof -
  have engine:
    "getWorldBounds example_fragments 4 = 9"
    "getOriginalWorldMatrix example_fragments 4 = 4"
    "getWorldMatrix example_fragments 4 = 8"
    by (simp_all add: getWorldBounds_def getOriginalWorldMatrix_def getWorldMatrix_def
        example_fragments_def)
  from fragment_operations_need_model [of "Some example_fragments" 4 None None None]
    fragment_operations_need_model
      [of "None :: (int, int, int, int) fragment_list option" 4 None None None]
    engine
  show ?thesis by simp
qed

text \<open>
  C4. For every loaded model, fragment id and prior auxiliary transform,
  \<^verbatim>\<open>setFragmentAuxTransform\<close> leaves each component it is not given (scale, rotation,
  position) of that fragment's auxiliary transform at its prior value, and sets each
  component it is given.
\<close>

theorem setFragmentAuxTransform_keeps_omitted:
  "\<exists>frags' before after.
     setFragmentAuxTransform (Some frags) fragId scale rotation position = Inr frags' \<and>
     getFragmentAuxTransform (Some frags) fragId = Inr before \<and>
     getFragmentAuxTransform (Some frags') fragId = Inr after \<and>
     (scale = None \<longrightarrow> aux_scale after = aux_scale before) \<and>
     (rotation = None \<longrightarrow> aux_rotation after = aux_rotation before) \<and>
     (position = None \<longrightarrow> aux_position after = aux_position before) \<and>
     (\<forall>v. scale = Some v \<longrightarrow> aux_scale after = v) \<and>
     (\<forall>q. rotation = Some q \<longrightarrow> aux_rotation after = q) \<and>
     (\<forall>v. position = Some v \<longrightarrow> aux_position after = v)"
  by (simp add: setFragmentAuxTransform_def getFragmentAuxTransform_def
      getAnimTransform_updateAnimTransform)

text \<open>
  C4, at the example fragment list: only the position of fragment 1 is given, and its
  scale 2 and rotation 3 stay.
\<close>

theorem setFragmentAuxTransform_keeps_omitted_witness:
  "\<exists>frags'.
     setFragmentAuxTransform (Some example_fragments) 1 None None (Some 9) = Inr frags' \<and>
     getFragmentAuxTransform (Some example_fragments) 1 =
       Inr \<lparr>aux_scale = 2, aux_rotation = 3, aux_position = 5\<rparr> \<and>
     getFragmentAuxTransform (Some frags') 1 =
       Inr \<lparr>aux_scale = 2, aux_rotation = 3, aux_position = 9\<rparr>"
proof -
  have prior: "getFragmentAuxTransform (Some example_fragments) 1 =
      Inr \<lparr>aux_scale = 2, aux_rotation = 3, aux_position = 5\<rparr>"
    by (simp add: getFragmentAuxTransform_def getAnimTransform_def example_fragments_def)
  from setFragmentAuxTransform_keeps_omitted
    [of example_fragments 1 None None "Some 9"]
  obtain frags' before after where
    set: "setFragmentAuxTransform (Some example_fragments) 1 None None (Some 9) = Inr frags'"
    and b: "getFragmentAuxTransform (Some example_fragments) 1 = Inr before"
    and a: "getFragmentAuxTransform (Some frags') 1 = Inr after"
    and s: "aux_scale after = aux_scale before"
    and r: "aux_rotation after = aux_rotation before"
    and p: "aux_position after = 9"
    by auto
  from prior b have "before = \<lparr>aux_scale = 2, aux_rotation = 3, aux_position = 5\<rparr>"
    by simp
  with s r p have "after = \<lparr>aux_scale = 2, aux_rotation = 3, aux_position = 9\<rparr>"
    by simp
  with set prior a show ?thesis
    by blast
qed

end
